theory Spec2Isabelle
  imports Main
begin

section \<open>The course page (src/pages/Course.tsx)\<close>

text \<open>
  The page is a React function component: ten \<open>useState\<close> cells and a handful of event
  handlers that read the cells of the current render and call their setters. It is
  embedded as a record of the ten cells and one function per handler, from the page
  before the event to the page after it, paired with the list of effects the handler
  performs on its collaborators, in program order: notifications handed to \<open>toast\<close>,
  queries sent to the data service, lines written by \<open>console.error\<close>.
\<close>

subsection \<open>Strings\<close>

text \<open>
  A \<open>string\<close> is a list of code units in the range U+0000 .. U+00FF, one \<open>char\<close> each.
  On that range \<open>String.prototype.trim\<close> strips TAB, LF, VT, FF, CR, SPACE and NBSP at
  both ends, and \<open>String.prototype.toLowerCase\<close> adds 32 to A .. Z, to U+00C0 .. U+00D6
  and to U+00D8 .. U+00DE and leaves every other code unit alone. Code units above
  U+00FF are outside the model.
\<close>

definition isWhiteSpace :: "char \<Rightarrow> bool" where
  "isWhiteSpace c = List.member [9, 10, 11, 12, 13, 32, 160 :: nat] (of_char c)"

definition trim :: "string \<Rightarrow> string" where
  "trim s = rev (dropWhile isWhiteSpace (rev (dropWhile isWhiteSpace s)))"

definition toLowerChar :: "char \<Rightarrow> char" where
  "toLowerChar c =
     (let n = (of_char c :: nat)
      in if (65 \<le> n \<and> n \<le> 90) \<or> (192 \<le> n \<and> n \<le> 214) \<or> (216 \<le> n \<and> n \<le> 222)
         then char_of (n + 32) else c)"

definition toLowerCase :: "string \<Rightarrow> string" where
  "toLowerCase s = map toLowerChar s"

subsection \<open>Data\<close>

text \<open>
  The two interfaces of the file. Field names carry the interface as a prefix where two
  interfaces share a name (\<open>id\<close>, \<open>title\<close>, \<open>description\<close>). An optional field is an
  \<open>option\<close>. A section's \<open>id\<close> is a \<open>number\<close> that only ever holds an integer.
\<close>

record CourseType =
  course_id :: string
  course_title :: string
  course_description :: string
  difficulty_level :: string
  is_free :: bool
  video_id :: "string option"
  thumbnail_url :: "string option"

record PythonSection =
  section_id :: int
  section_title :: string
  section_description :: string
  isCompleted :: bool

definition pythonSections :: "PythonSection list" where
  "pythonSections =
     [\<lparr>section_id = 1, section_title = ''Introduction to Python'',
       section_description = ''Learn the basics of Python programming language and its ecosystem.'',
       isCompleted = False\<rparr>,
      \<lparr>section_id = 2, section_title = ''Basics of Python'',
       section_description = ''Master fundamental concepts like variables, data types, and control structures.'',
       isCompleted = False\<rparr>,
      \<lparr>section_id = 3, section_title = ''OOP Concepts in Python'',
       section_description = ''Understand object-oriented programming principles in Python.'',
       isCompleted = False\<rparr>,
      \<lparr>section_id = 4, section_title = ''Advanced Concepts in Python'',
       section_description = ''Explore advanced topics like decorators, generators, and metaclasses.'',
       isCompleted = False\<rparr>]"

text \<open>The state cells of the component, named as their \<open>useState\<close> declarations.\<close>

record page =
  searchTopic :: string
  showTypeDialog :: bool
  showDifficultyDialog :: bool
  selectedType :: "bool option"
  selectedDifficulty :: string
  courses :: "CourseType list"
  selectedVideo :: string
  showQuiz :: bool
  showPythonModal :: bool
  sections :: "PythonSection list"

definition initialPage :: page where
  "initialPage =
     \<lparr>searchTopic = [], showTypeDialog = False, showDifficultyDialog = False,
      selectedType = None, selectedDifficulty = [], courses = [], selectedVideo = [],
      showQuiz = False, showPythonModal = False, sections = pythonSections\<rparr>"

subsection \<open>Collaborators\<close>

text \<open>
  A notification is the object passed to \<open>toast\<close>; \<open>variant\<close> is absent in the
  "Quiz Completed" one. A query is the chain built on the client: the collection, the
  selected columns, the two equality filters and the ordering. \<open>selectedType\<close> is
  \<open>boolean | null\<close>, so the first filter's operand is an \<open>option\<close>.
\<close>

record toast =
  toast_title :: string
  toast_description :: string
  variant :: "string option"

record query =
  from_table :: string
  select_columns :: string
  eq_is_free :: "bool option"
  eq_difficulty_level :: string
  order_column :: string
  order_ascending :: bool

type_synonym err = string

text \<open>
  What awaiting the query gives: the promise rejects, or it resolves to an object whose
  \<open>data\<close> and \<open>error\<close> may each be null.
\<close>

datatype response =
    Rejected err
  | Resolved "CourseType list option" "err option"

datatype effect =
    Toast toast
  | Query query
  | ConsoleError string err

subsection \<open>Handlers\<close>

definition handleSearch :: "page \<Rightarrow> page \<times> effect list" where
  "handleSearch s =
     (if trim (searchTopic s) = []
      then (s, [Toast \<lparr>toast_title = ''Error'',
                       toast_description = ''Please enter a topic to search'',
                       variant = Some ''destructive''\<rparr>])
      else (s\<lparr>showTypeDialog := True\<rparr>, []))"

definition handleTypeSelection :: "bool \<Rightarrow> page \<Rightarrow> page \<times> effect list" where
  "handleTypeSelection isFree s =
     (s\<lparr>selectedType := Some isFree, showTypeDialog := False, showDifficultyDialog := True\<rparr>, [])"

text \<open>
  The body of the \<open>try\<close> block from the point where the awaited call has answered:
  \<open>Inl\<close> is a throw (the rejection itself, or \<open>if (error) throw error\<close>), \<open>Inr\<close> the
  page and the effects when the block runs to its end. \<open>data || []\<close> is the empty list
  for null; \<open>!data?.length\<close> holds for null and for the empty array.
\<close>

definition handleDifficultySelection_try :: "response \<Rightarrow> page \<Rightarrow> err + page \<times> effect list" where
  "handleDifficultySelection_try r s =
     (case r of
        Rejected e \<Rightarrow> Inl e
      | Resolved data error \<Rightarrow>
          (case error of
             Some e \<Rightarrow> Inl e
           | None \<Rightarrow>
               Inr (s\<lparr>courses := (case data of None \<Rightarrow> [] | Some cs \<Rightarrow> cs)\<rparr>,
                    if (case data of None \<Rightarrow> True | Some cs \<Rightarrow> cs = [])
                    then [Toast \<lparr>toast_title = ''No courses found'',
                                 toast_description = ''Try different search criteria'',
                                 variant = Some ''destructive''\<rparr>]
                    else [])))"

text \<open>
  The handler itself; \<open>supabase\<close> is the data service, from the query to what awaiting
  it gives. The \<open>catch\<close> clause logs, notifies and returns, on the page as the two
  setters before the \<open>try\<close> left it. The call is taken with its answer: no other
  event of the page comes between the \<open>await\<close> and the code after it.
\<close>

definition handleDifficultySelection ::
  "(query \<Rightarrow> response) \<Rightarrow> string \<Rightarrow> page \<Rightarrow> page \<times> effect list" where
  "handleDifficultySelection supabase difficulty s =
     (if toLowerCase (searchTopic s) = ''python'' \<and> difficulty = ''Beginner''
      then (s\<lparr>showPythonModal := True\<rparr>, [])
      else
        let s1 = s\<lparr>selectedDifficulty := difficulty, showDifficultyDialog := False\<rparr>;
            q = \<lparr>from_table = ''courses'', select_columns = ''*'',
                 eq_is_free = selectedType s,
                 eq_difficulty_level = toLowerCase difficulty,
                 order_column = ''created_at'', order_ascending = False\<rparr>
        in case handleDifficultySelection_try (supabase q) s1 of
             Inr (s2, es) \<Rightarrow> (s2, Query q # es)
           | Inl e \<Rightarrow>
               (s1, [Query q, ConsoleError ''Error fetching courses:'' e,
                     Toast \<lparr>toast_title = ''Error'',
                            toast_description = ''Failed to fetch courses'',
                            variant = Some ''destructive''\<rparr>]))"

definition handleSectionComplete :: "int \<Rightarrow> page \<Rightarrow> page \<times> effect list" where
  "handleSectionComplete sectionId s =
     (s\<lparr>sections :=
          map (\<lambda>section. if section_id section = sectionId
                          then section\<lparr>isCompleted := True\<rparr> else section)
              (sections s)\<rparr>,
      [Toast \<lparr>toast_title = ''Quiz Completed'',
              toast_description = ''You've completed this section's quiz!'',
              variant = None\<rparr>])"

definition handleVideoComplete :: "page \<Rightarrow> page \<times> effect list" where
  "handleVideoComplete s = (s\<lparr>showQuiz := True, selectedVideo := []\<rparr>, [])"

subsection \<open>Callbacks written inline in the JSX\<close>

text \<open>
  The props handed to the child components: the \<open>onChange\<close> of the input, the
  \<open>onOpenChange\<close> of the three dialogs (the bare setters), \<open>onVideoSelect\<close> of a course
  card (the bare setter), and the props of the video player and of the quiz. A non-empty
  string is truthy, so \<open>!!selectedVideo\<close> is "not the empty string".
\<close>

definition input_onChange :: "string \<Rightarrow> page \<Rightarrow> page \<times> effect list" where
  "input_onChange v s = (s\<lparr>searchTopic := v\<rparr>, [])"

definition setShowTypeDialog :: "bool \<Rightarrow> page \<Rightarrow> page \<times> effect list" where
  "setShowTypeDialog b s = (s\<lparr>showTypeDialog := b\<rparr>, [])"

definition setShowDifficultyDialog :: "bool \<Rightarrow> page \<Rightarrow> page \<times> effect list" where
  "setShowDifficultyDialog b s = (s\<lparr>showDifficultyDialog := b\<rparr>, [])"

definition setShowPythonModal :: "bool \<Rightarrow> page \<Rightarrow> page \<times> effect list" where
  "setShowPythonModal b s = (s\<lparr>showPythonModal := b\<rparr>, [])"

definition setSelectedVideo :: "string \<Rightarrow> page \<Rightarrow> page \<times> effect list" where
  "setSelectedVideo v s = (s\<lparr>selectedVideo := v\<rparr>, [])"

definition videoPlayer_isOpen :: "page \<Rightarrow> bool" where
  "videoPlayer_isOpen s = (selectedVideo s \<noteq> [])"

definition videoPlayer_onClose :: "page \<Rightarrow> page \<times> effect list" where
  "videoPlayer_onClose s = setSelectedVideo [] s"

definition courseQuiz_onClose :: "page \<Rightarrow> page \<times> effect list" where
  "courseQuiz_onClose s = (s\<lparr>showQuiz := False\<rparr>, [])"

definition courseQuiz_onRetry :: "page \<Rightarrow> page \<times> effect list" where
  "courseQuiz_onRetry s = setSelectedVideo (selectedVideo s) s"

subsection \<open>Events and runs\<close>

text \<open>
  Every callback the component hands out, with the argument its caller supplies. The
  child components are not part of the file, so the arguments are arbitrary: a
  section id that is no section's, a difficulty that is none of the four buttons'.
\<close>

datatype event =
    InputChange string
  | SearchClick
  | TypeClick bool
  | DifficultyClick string
  | SectionQuizClick int
  | VideoSelect string
  | VideoClose
  | VideoComplete
  | QuizClose
  | QuizRetry
  | TypeDialogOpenChange bool
  | DifficultyDialogOpenChange bool
  | PythonModalOpenChange bool

fun dispatch :: "(query \<Rightarrow> response) \<Rightarrow> event \<Rightarrow> page \<Rightarrow> page \<times> effect list" where
  "dispatch supabase (InputChange v) s = input_onChange v s"
| "dispatch supabase SearchClick s = handleSearch s"
| "dispatch supabase (TypeClick isFree) s = handleTypeSelection isFree s"
| "dispatch supabase (DifficultyClick level) s = handleDifficultySelection supabase level s"
| "dispatch supabase (SectionQuizClick sectionId) s = handleSectionComplete sectionId s"
| "dispatch supabase (VideoSelect v) s = setSelectedVideo v s"
| "dispatch supabase VideoClose s = videoPlayer_onClose s"
| "dispatch supabase VideoComplete s = handleVideoComplete s"
| "dispatch supabase QuizClose s = courseQuiz_onClose s"
| "dispatch supabase QuizRetry s = courseQuiz_onRetry s"
| "dispatch supabase (TypeDialogOpenChange b) s = setShowTypeDialog b s"
| "dispatch supabase (DifficultyDialogOpenChange b) s = setShowDifficultyDialog b s"
| "dispatch supabase (PythonModalOpenChange b) s = setShowPythonModal b s"

text \<open>
  A run is a list of events, each with the data service as it answers at that moment;
  \<open>run\<close> is the page after all of them.
\<close>

fun run :: "((query \<Rightarrow> response) \<times> event) list \<Rightarrow> page \<Rightarrow> page" where
  "run [] s = s"
| "run ((supabase, ev) # rest) s = run rest (fst (dispatch supabase ev s))"

subsection \<open>Observations\<close>

fun toastsOf :: "effect list \<Rightarrow> toast list" where
  "toastsOf [] = []"
| "toastsOf (Toast t # es) = t # toastsOf es"
| "toastsOf (_ # es) = toastsOf es"

fun queriesOf :: "effect list \<Rightarrow> query list" where
  "queriesOf [] = []"
| "queriesOf (Query q # es) = q # queriesOf es"
| "queriesOf (_ # es) = queriesOf es"

text \<open>The three wizard dialogs whose \<open>open\<close> prop is true.\<close>

definition openDialogs :: "page \<Rightarrow> string list" where
  "openDialogs s =
     (if showTypeDialog s then [''type''] else []) @
     (if showDifficultyDialog s then [''difficulty''] else []) @
     (if showPythonModal s then [''curriculum''] else [])"

text \<open>A sections list with every completion flag cleared: what the catalog fixes.\<close>

definition catalogOf :: "PythonSection list \<Rightarrow> PythonSection list" where
  "catalogOf xs = map (\<lambda>section. section\<lparr>isCompleted := False\<rparr>) xs"

section \<open>Properties\<close>

subsection \<open>Auxiliary facts\<close>

lemma trim_empty_iff: "trim s = [] \<longleftrightarrow> (\<forall>c\<in>set s. isWhiteSpace c)"
proof -
  let ?d = "dropWhile isWhiteSpace s"
  have "trim s = [] \<longleftrightarrow> (\<forall>c\<in>set ?d. isWhiteSpace c)"
    by (simp add: trim_def dropWhile_eq_Nil_conv)
  also have "\<dots> \<longleftrightarrow> ?d = []"
  proof
    assume a: "\<forall>c\<in>set ?d. isWhiteSpace c"
    show "?d = []"
    proof (rule ccontr)
      assume ne: "?d \<noteq> []"
      then have "\<not> isWhiteSpace (hd ?d)" by (rule hd_dropWhile)
      moreover from ne have "hd ?d \<in> set ?d" by simp
      ultimately show False using a by blast
    qed
  next
    assume "?d = []"
    then show "\<forall>c\<in>set ?d. isWhiteSpace c" by (simp only: list.set ball_empty)
  qed
  also have "\<dots> \<longleftrightarrow> (\<forall>c\<in>set s. isWhiteSpace c)"
    by (simp add: dropWhile_eq_Nil_conv)
  finally show ?thesis .
qed

lemma sections_handleDifficultySelection:
  "sections (fst (handleDifficultySelection supabase difficulty s)) = sections s"
  by (simp add: handleDifficultySelection_def handleDifficultySelection_try_def Let_def
      split: response.split option.split)

lemma sections_handleSearch: "sections (fst (handleSearch s)) = sections s"
  by (simp add: handleSearch_def)

lemma sections_dispatch:
  "sections (fst (dispatch supabase ev s)) =
     (case ev of
        SectionQuizClick sectionId \<Rightarrow>
          map (\<lambda>section. if section_id section = sectionId
                          then section\<lparr>isCompleted := True\<rparr> else section) (sections s)
      | _ \<Rightarrow> sections s)"
  by (cases ev)
     (simp_all add: sections_handleDifficultySelection sections_handleSearch
        input_onChange_def handleTypeSelection_def handleSectionComplete_def
        setSelectedVideo_def videoPlayer_onClose_def handleVideoComplete_def
        courseQuiz_onClose_def courseQuiz_onRetry_def setShowTypeDialog_def
        setShowDifficultyDialog_def setShowPythonModal_def)

lemma catalogOf_dispatch:
  "catalogOf (sections (fst (dispatch supabase ev s))) = catalogOf (sections s)"
  by (simp add: sections_dispatch catalogOf_def comp_def split: event.split)

lemma catalogOf_run: "catalogOf (sections (run tr s)) = catalogOf (sections s)"
  by (induction tr arbitrary: s) (auto simp: catalogOf_dispatch)

lemma length_sections_dispatch:
  "length (sections (fst (dispatch supabase ev s))) = length (sections s)"
  by (simp add: sections_dispatch split: event.split)

lemma isCompleted_dispatch:
  assumes "i < length (sections s)" and "isCompleted (sections s ! i)"
  shows "isCompleted (sections (fst (dispatch supabase ev s)) ! i)"
  using assms by (simp add: sections_dispatch split: event.split)

lemma length_sections_run: "length (sections (run tr s)) = length (sections s)"
  by (induction tr arbitrary: s) (auto simp: length_sections_dispatch)

lemma isCompleted_run:
  "i < length (sections s) \<Longrightarrow> isCompleted (sections s ! i) \<Longrightarrow>
   isCompleted (sections (run tr s) ! i)"
proof (induction tr arbitrary: s)
  case Nil
  then show ?case by simp
next
  case (Cons a tr)
  obtain supabase ev where a: "a = (supabase, ev)" by (cases a)
  let ?s = "fst (dispatch supabase ev s)"
  have "i < length (sections ?s)" using Cons.prems(1) by (simp add: length_sections_dispatch)
  moreover have "isCompleted (sections ?s ! i)" using Cons.prems by (rule isCompleted_dispatch)
  ultimately show ?case using Cons.IH [of ?s] by (simp add: a)
qed

lemma run_append: "run (tr @ tr') s = run tr' (run tr s)"
  by (induction tr arbitrary: s) auto

lemma catalogOf_initial: "catalogOf (sections initialPage) = pythonSections"
  by (simp add: catalogOf_def initialPage_def pythonSections_def)

lemma section_id_catalogOf: "map section_id (catalogOf xs) = map section_id xs"
  by (simp add: catalogOf_def)

subsection \<open>The difficulty step\<close>

text \<open>
  Claim C1. Whenever the recorded topic lower-cases to \<open>python\<close> and the difficulty
  argument is exactly \<open>Beginner\<close>, \<open>handleDifficultySelection\<close> opens the curriculum
  modal, performs no effect at all (so no query is sent to the data service, whatever
  the service would answer), and the recorded difficulty keeps its value: the page
  differs from the one before in \<open>showPythonModal\<close> only.
\<close>

theorem handleDifficultySelection_diversion:
  assumes "toLowerCase (searchTopic s) = ''python''" and "difficulty = ''Beginner''"
  shows "showPythonModal (fst (handleDifficultySelection supabase difficulty s))
     \<and> queriesOf (snd (handleDifficultySelection supabase difficulty s)) = []
     \<and> snd (handleDifficultySelection supabase difficulty s) = []
     \<and> selectedDifficulty (fst (handleDifficultySelection supabase difficulty s)) = selectedDifficulty s
     \<and> fst (handleDifficultySelection supabase difficulty s) = s\<lparr>showPythonModal := True\<rparr>"
  using assms by (simp add: handleDifficultySelection_def)

theorem handleDifficultySelection_diversion_witness:
  "showPythonModal (fst (handleDifficultySelection (\<lambda>_. Resolved None None) ''Beginner''
       (initialPage\<lparr>searchTopic := ''PyThOn'', selectedDifficulty := ''Expert''\<rparr>)))
   \<and> queriesOf (snd (handleDifficultySelection (\<lambda>_. Resolved None None) ''Beginner''
       (initialPage\<lparr>searchTopic := ''PyThOn'', selectedDifficulty := ''Expert''\<rparr>))) = []
   \<and> selectedDifficulty (fst (handleDifficultySelection (\<lambda>_. Resolved None None) ''Beginner''
       (initialPage\<lparr>searchTopic := ''PyThOn'', selectedDifficulty := ''Expert''\<rparr>))) = ''Expert''"
proof -
  let ?s = "initialPage\<lparr>searchTopic := ''PyThOn'', selectedDifficulty := ''Expert''\<rparr>"
  have "toLowerCase ''PyThOn'' = ''python''" by code_simp
  then have h: "toLowerCase (searchTopic ?s) = ''python''" by simp
  from handleDifficultySelection_diversion [OF h refl, of "\<lambda>_. Resolved None None"]
  show ?thesis by simp
qed

text \<open>
  Claim C2. Outside the diversion case \<open>handleDifficultySelection\<close> sends exactly one
  query: against \<open>courses\<close>, with \<open>is_free\<close> equal to the recorded tier,
  \<open>difficulty_level\<close> equal to the lower-cased difficulty argument, ordered by
  \<open>created_at\<close> descending. When the service answers without an error, the results
  list becomes the answer's records, or the empty list when the answer carries none.
\<close>

theorem handleDifficultySelection_query:
  assumes "\<not> (toLowerCase (searchTopic s) = ''python'' \<and> difficulty = ''Beginner'')"
  shows "\<exists>q. queriesOf (snd (handleDifficultySelection supabase difficulty s)) = [q]
     \<and> from_table q = ''courses''
     \<and> eq_is_free q = selectedType s
     \<and> eq_difficulty_level q = toLowerCase difficulty
     \<and> order_column q = ''created_at'' \<and> \<not> order_ascending q
     \<and> (\<forall>data. supabase q = Resolved data None \<longrightarrow>
          courses (fst (handleDifficultySelection supabase difficulty s)) =
            (case data of None \<Rightarrow> [] | Some cs \<Rightarrow> cs))"
proof -
  let ?q = "\<lparr>from_table = ''courses'', select_columns = ''*'', eq_is_free = selectedType s,
             eq_difficulty_level = toLowerCase difficulty,
             order_column = ''created_at'', order_ascending = False\<rparr>"
  have one: "queriesOf (snd (handleDifficultySelection supabase difficulty s)) = [?q]"
    using assms
    by (cases "supabase ?q")
       (auto simp: handleDifficultySelection_def handleDifficultySelection_try_def Let_def
             split: option.split)
  have ok: "courses (fst (handleDifficultySelection supabase difficulty s)) =
              (case data of None \<Rightarrow> [] | Some cs \<Rightarrow> cs)"
    if "supabase ?q = Resolved data None" for data
    using assms that
    by (auto simp: handleDifficultySelection_def handleDifficultySelection_try_def Let_def)
  from one ok show ?thesis by auto
qed

theorem handleDifficultySelection_query_witness:
  "\<exists>q. queriesOf (snd (handleDifficultySelection (\<lambda>_. Resolved None None) ''Hard''
            (initialPage\<lparr>searchTopic := ''python'', selectedType := Some True,
                          courses := [\<lparr>course_id = ''c1'', course_title = ''Rust'',
                             course_description = ''Ownership'', difficulty_level = ''expert'',
                             is_free = False, video_id = None, thumbnail_url = None\<rparr>]\<rparr>))) = [q]
     \<and> from_table q = ''courses''
     \<and> eq_is_free q = Some True
     \<and> eq_difficulty_level q = ''hard''
     \<and> order_column q = ''created_at'' \<and> \<not> order_ascending q
     \<and> courses (fst (handleDifficultySelection (\<lambda>_. Resolved None None) ''Hard''
            (initialPage\<lparr>searchTopic := ''python'', selectedType := Some True,
                          courses := [\<lparr>course_id = ''c1'', course_title = ''Rust'',
                             course_description = ''Ownership'', difficulty_level = ''expert'',
                             is_free = False, video_id = None, thumbnail_url = None\<rparr>]\<rparr>))) = []"
proof -
  let ?s = "initialPage\<lparr>searchTopic := ''python'', selectedType := Some True,
                          courses := [\<lparr>course_id = ''c1'', course_title = ''Rust'',
                             course_description = ''Ownership'', difficulty_level = ''expert'',
                             is_free = False, video_id = None, thumbnail_url = None\<rparr>]\<rparr>"
  have h: "\<not> (toLowerCase (searchTopic ?s) = ''python'' \<and> ''Hard'' = ''Beginner'')" by simp
  have low: "toLowerCase ''Hard'' = ''hard''" by code_simp
  from handleDifficultySelection_query [OF h, of "\<lambda>_. Resolved None None"]
  show ?thesis by (simp add: low)
qed

text \<open>
  Claim C4. Outside the diversion case, when the query fails (the call rejects, or it
  resolves with an error), the results list is the one from before the call, exactly one
  notification is raised and it is the failure one, the query was sent once and not
  again, and the handler ends normally after logging the error.
\<close>

theorem handleDifficultySelection_failure:
  assumes "\<not> (toLowerCase (searchTopic s) = ''python'' \<and> difficulty = ''Beginner'')"
    and "q = \<lparr>from_table = ''courses'', select_columns = ''*'', eq_is_free = selectedType s,
               eq_difficulty_level = toLowerCase difficulty,
               order_column = ''created_at'', order_ascending = False\<rparr>"
    and "supabase q = Rejected e \<or> supabase q = Resolved data (Some e)"
  shows "courses (fst (handleDifficultySelection supabase difficulty s)) = courses s
     \<and> toastsOf (snd (handleDifficultySelection supabase difficulty s)) =
         [\<lparr>toast_title = ''Error'', toast_description = ''Failed to fetch courses'',
           variant = Some ''destructive''\<rparr>]
     \<and> queriesOf (snd (handleDifficultySelection supabase difficulty s)) = [q]
     \<and> snd (handleDifficultySelection supabase difficulty s) =
         [Query q, ConsoleError ''Error fetching courses:'' e,
          Toast \<lparr>toast_title = ''Error'', toast_description = ''Failed to fetch courses'',
                 variant = Some ''destructive''\<rparr>]"
  using assms
  by (auto simp: handleDifficultySelection_def handleDifficultySelection_try_def Let_def)

theorem handleDifficultySelection_failure_witness:
  "courses (fst (handleDifficultySelection
       (\<lambda>q. if eq_difficulty_level q = ''expert'' then Resolved (Some []) (Some ''permission denied'')
             else Rejected ''offline'')
       ''Expert''
       (initialPage\<lparr>searchTopic := ''python'', selectedType := Some False,
                     courses := [\<lparr>course_id = ''c1'', course_title = ''Rust'',
                        course_description = ''Ownership'', difficulty_level = ''hard'',
                        is_free = False, video_id = None, thumbnail_url = None\<rparr>]\<rparr>)))
     = [\<lparr>course_id = ''c1'', course_title = ''Rust'',
          course_description = ''Ownership'', difficulty_level = ''hard'',
          is_free = False, video_id = None, thumbnail_url = None\<rparr>]
   \<and> toastsOf (snd (handleDifficultySelection
       (\<lambda>q. if eq_difficulty_level q = ''expert'' then Resolved (Some []) (Some ''permission denied'')
             else Rejected ''offline'')
       ''Expert''
       (initialPage\<lparr>searchTopic := ''python'', selectedType := Some False,
                     courses := [\<lparr>course_id = ''c1'', course_title = ''Rust'',
                        course_description = ''Ownership'', difficulty_level = ''hard'',
                        is_free = False, video_id = None, thumbnail_url = None\<rparr>]\<rparr>)))
     = [\<lparr>toast_title = ''Error'', toast_description = ''Failed to fetch courses'',
          variant = Some ''destructive''\<rparr>]"
proof -
  let ?db = "\<lambda>q. if eq_difficulty_level q = ''expert''
                  then Resolved (Some []) (Some ''permission denied'') else Rejected ''offline''"
  let ?s = "initialPage\<lparr>searchTopic := ''python'', selectedType := Some False,
                     courses := [\<lparr>course_id = ''c1'', course_title = ''Rust'',
                        course_description = ''Ownership'', difficulty_level = ''hard'',
                        is_free = False, video_id = None, thumbnail_url = None\<rparr>]\<rparr>"
  let ?q = "\<lparr>from_table = ''courses'', select_columns = ''*'', eq_is_free = selectedType ?s,
             eq_difficulty_level = toLowerCase ''Expert'',
             order_column = ''created_at'', order_ascending = False\<rparr>"
  have h: "\<not> (toLowerCase (searchTopic ?s) = ''python'' \<and> ''Expert'' = ''Beginner'')" by simp
  have low: "toLowerCase ''Expert'' = ''expert''" by code_simp
  have f: "?db ?q = Rejected ''permission denied'' \<or> ?db ?q = Resolved (Some []) (Some ''permission denied'')"
    by (simp add: low)
  from handleDifficultySelection_failure
         [of ?s "''Expert''" ?q ?db "''permission denied''" "Some []", OF h refl f]
  show ?thesis by simp
qed

subsection \<open>The search step\<close>

text \<open>
  Claim C3. When every code unit of the topic is white space (the empty topic included),
  \<open>handleSearch\<close> raises exactly one notification, the error one, and leaves the page
  as it was, so the type dialog is not opened by it. When the topic has a code unit that
  is not white space, it opens the type dialog and raises no notification.
\<close>

theorem handleSearch_validation:
  "((\<forall>c\<in>set (searchTopic s). isWhiteSpace c) \<longrightarrow>
       toastsOf (snd (handleSearch s)) =
         [\<lparr>toast_title = ''Error'', toast_description = ''Please enter a topic to search'',
           variant = Some ''destructive''\<rparr>]
       \<and> showTypeDialog (fst (handleSearch s)) = showTypeDialog s
       \<and> fst (handleSearch s) = s)
   \<and> ((\<exists>c\<in>set (searchTopic s). \<not> isWhiteSpace c) \<longrightarrow>
       showTypeDialog (fst (handleSearch s)) \<and> snd (handleSearch s) = [])"
  by (auto simp: handleSearch_def trim_empty_iff)

theorem handleSearch_validation_witness:
  "toastsOf (snd (handleSearch (initialPage\<lparr>searchTopic := [CHR '' '', CHR 0x09, CHR 0xA0]\<rparr>))) =
     [\<lparr>toast_title = ''Error'', toast_description = ''Please enter a topic to search'',
       variant = Some ''destructive''\<rparr>]
   \<and> \<not> showTypeDialog (fst (handleSearch (initialPage\<lparr>searchTopic := [CHR '' '', CHR 0x09, CHR 0xA0]\<rparr>)))
   \<and> showTypeDialog (fst (handleSearch (initialPage\<lparr>searchTopic := '' AI ''\<rparr>)))
   \<and> snd (handleSearch (initialPage\<lparr>searchTopic := '' AI ''\<rparr>)) = []"
proof -
  let ?blank = "initialPage\<lparr>searchTopic := [CHR '' '', CHR 0x09, CHR 0xA0]\<rparr>"
  let ?ai = "initialPage\<lparr>searchTopic := '' AI ''\<rparr>"
  have b: "\<forall>c\<in>set (searchTopic ?blank). isWhiteSpace c" by code_simp
  have a: "\<exists>c\<in>set (searchTopic ?ai). \<not> isWhiteSpace c" by code_simp
  have closed: "\<not> showTypeDialog ?blank" by (simp add: initialPage_def)
  from handleSearch_validation [of ?blank] b
  have 1: "toastsOf (snd (handleSearch ?blank)) =
     [\<lparr>toast_title = ''Error'', toast_description = ''Please enter a topic to search'',
       variant = Some ''destructive''\<rparr>]
     \<and> showTypeDialog (fst (handleSearch ?blank)) = showTypeDialog ?blank" by blast
  from handleSearch_validation [of ?ai] a
  have 2: "showTypeDialog (fst (handleSearch ?ai)) \<and> snd (handleSearch ?ai) = []" by blast
  from 1 2 closed show ?thesis by simp
qed

text \<open>
  Claim C10. When the topic has a code unit that is not white space, \<open>handleSearch\<close>
  changes the \<open>showTypeDialog\<close> cell and nothing else: the results of an earlier
  query, the recorded tier and difficulty, the selected video, the quiz flag, the other
  two dialog flags and the sections are the ones from before, and no effect is performed.
\<close>

theorem handleSearch_frame:
  assumes "\<exists>c\<in>set (searchTopic s). \<not> isWhiteSpace c"
  shows "fst (handleSearch s) = s\<lparr>showTypeDialog := True\<rparr>
     \<and> snd (handleSearch s) = []
     \<and> searchTopic (fst (handleSearch s)) = searchTopic s
     \<and> showDifficultyDialog (fst (handleSearch s)) = showDifficultyDialog s
     \<and> selectedType (fst (handleSearch s)) = selectedType s
     \<and> selectedDifficulty (fst (handleSearch s)) = selectedDifficulty s
     \<and> courses (fst (handleSearch s)) = courses s
     \<and> selectedVideo (fst (handleSearch s)) = selectedVideo s
     \<and> showQuiz (fst (handleSearch s)) = showQuiz s
     \<and> showPythonModal (fst (handleSearch s)) = showPythonModal s
     \<and> sections (fst (handleSearch s)) = sections s"
  using assms by (auto simp: handleSearch_def trim_empty_iff)

theorem handleSearch_frame_witness:
  "courses (fst (handleSearch
      (initialPage\<lparr>searchTopic := ''go'', selectedType := Some True, selectedDifficulty := ''Hard'',
                    courses := [\<lparr>course_id = ''c1'', course_title = ''Rust'',
                        course_description = ''Ownership'', difficulty_level = ''hard'',
                        is_free = True, video_id = Some ''abc123'', thumbnail_url = None\<rparr>]\<rparr>)))
     = [\<lparr>course_id = ''c1'', course_title = ''Rust'',
          course_description = ''Ownership'', difficulty_level = ''hard'',
          is_free = True, video_id = Some ''abc123'', thumbnail_url = None\<rparr>]
   \<and> selectedDifficulty (fst (handleSearch
      (initialPage\<lparr>searchTopic := ''go'', selectedType := Some True, selectedDifficulty := ''Hard'',
                    courses := [\<lparr>course_id = ''c1'', course_title = ''Rust'',
                        course_description = ''Ownership'', difficulty_level = ''hard'',
                        is_free = True, video_id = Some ''abc123'', thumbnail_url = None\<rparr>]\<rparr>)))
     = ''Hard''
   \<and> showTypeDialog (fst (handleSearch
      (initialPage\<lparr>searchTopic := ''go'', selectedType := Some True, selectedDifficulty := ''Hard'',
                    courses := [\<lparr>course_id = ''c1'', course_title = ''Rust'',
                        course_description = ''Ownership'', difficulty_level = ''hard'',
                        is_free = True, video_id = Some ''abc123'', thumbnail_url = None\<rparr>]\<rparr>)))"
proof -
  let ?s = "initialPage\<lparr>searchTopic := ''go'', selectedType := Some True, selectedDifficulty := ''Hard'',
                    courses := [\<lparr>course_id = ''c1'', course_title = ''Rust'',
                        course_description = ''Ownership'', difficulty_level = ''hard'',
                        is_free = True, video_id = Some ''abc123'', thumbnail_url = None\<rparr>]\<rparr>"
  have h: "\<exists>c\<in>set (searchTopic ?s). \<not> isWhiteSpace c" by code_simp
  from handleSearch_frame [OF h] show ?thesis by simp
qed

subsection \<open>The curriculum tracker\<close>

text \<open>
  Claim C5, as stated, at the id 99 and the initial page: no section has the id 99, and
  it is not the case that the page is unchanged and no notification is raised.
\<close>

theorem handleSectionComplete_unknown_notifies:
  "(99 :: int) \<notin> set (map section_id (sections initialPage))
   \<and> \<not> (fst (handleSectionComplete 99 initialPage) = initialPage
        \<and> toastsOf (snd (handleSectionComplete 99 initialPage)) = [])"
  by code_simp

text \<open>
  Claim C5, amended. For an id that no section of the current list has,
  \<open>handleSectionComplete\<close> leaves the sections list (each section's fields, the length,
  the order) and the rest of the page unchanged, and raises exactly one notification,
  the "Quiz Completed" one, which carries no error variant.
\<close>

theorem handleSectionComplete_unknown:
  assumes "sectionId \<notin> set (map section_id (sections s))"
  shows "sections (fst (handleSectionComplete sectionId s)) = sections s
     \<and> fst (handleSectionComplete sectionId s) = s
     \<and> snd (handleSectionComplete sectionId s) =
         [Toast \<lparr>toast_title = ''Quiz Completed'',
                 toast_description = ''You've completed this section's quiz!'',
                 variant = None\<rparr>]"
proof -
  have "map (\<lambda>section. if section_id section = sectionId
                        then section\<lparr>isCompleted := True\<rparr> else section) (sections s)
        = sections s"
    using assms by (intro map_idI) auto
  then show ?thesis by (simp add: handleSectionComplete_def)
qed

theorem handleSectionComplete_unknown_witness:
  "sections (fst (handleSectionComplete 99 initialPage)) = pythonSections
   \<and> snd (handleSectionComplete 99 initialPage) =
         [Toast \<lparr>toast_title = ''Quiz Completed'',
                 toast_description = ''You've completed this section's quiz!'',
                 variant = None\<rparr>]"
proof -
  have h: "(99 :: int) \<notin> set (map section_id (sections initialPage))" by code_simp
  from handleSectionComplete_unknown [OF h] show ?thesis by (simp add: initialPage_def)
qed

text \<open>
  Claim C6. For an id that some section of the current list has, whatever the completion
  flags are, \<open>handleSectionComplete\<close> keeps the length of the list, sets the flag of
  each section with that id and leaves every other section as it was, changes no other
  cell of the page, and raises the "Quiz Completed" notification. Calling it a second
  time gives the sections list the first call gave, and after each of the two calls the
  flag of every section with that id is set.
\<close>

theorem handleSectionComplete_existing:
  assumes "sectionId \<in> set (map section_id (sections s))"
  shows "length (sections (fst (handleSectionComplete sectionId s))) = length (sections s)
     \<and> (\<forall>i<length (sections s).
          sections (fst (handleSectionComplete sectionId s)) ! i =
            (if section_id (sections s ! i) = sectionId
             then (sections s ! i)\<lparr>isCompleted := True\<rparr> else sections s ! i))
     \<and> (\<exists>i<length (sections s). section_id (sections s ! i) = sectionId
          \<and> isCompleted (sections (fst (handleSectionComplete sectionId s)) ! i))
     \<and> fst (handleSectionComplete sectionId s) =
          s\<lparr>sections := sections (fst (handleSectionComplete sectionId s))\<rparr>
     \<and> snd (handleSectionComplete sectionId s) =
         [Toast \<lparr>toast_title = ''Quiz Completed'',
                 toast_description = ''You've completed this section's quiz!'',
                 variant = None\<rparr>]
     \<and> sections (fst (handleSectionComplete sectionId (fst (handleSectionComplete sectionId s)))) =
         sections (fst (handleSectionComplete sectionId s))
     \<and> (\<forall>i<length (sections s).
          section_id (sections (fst (handleSectionComplete sectionId s)) ! i) = sectionId \<longrightarrow>
          isCompleted (sections (fst (handleSectionComplete sectionId s)) ! i))
     \<and> (\<forall>i<length (sections s).
          section_id (sections (fst (handleSectionComplete sectionId
                                      (fst (handleSectionComplete sectionId s)))) ! i) = sectionId \<longrightarrow>
          isCompleted (sections (fst (handleSectionComplete sectionId
                                       (fst (handleSectionComplete sectionId s)))) ! i))"
    (is "?len \<and> ?nth \<and> ?ex \<and> ?page \<and> ?toast \<and> ?idem \<and> ?flag1 \<and> ?flag2")
proof -
  let ?f = "\<lambda>section. if section_id section = sectionId
                        then section\<lparr>isCompleted := True\<rparr> else section"
  have sec: "sections (fst (handleSectionComplete sectionId t)) = map ?f (sections t)" for t
    by (simp add: handleSectionComplete_def)
  have len: ?len by (simp add: sec)
  have nth: ?nth by (simp add: sec)
  from assms obtain i where i: "i < length (sections s)" "section_id (sections s ! i) = sectionId"
    by (auto simp: in_set_conv_nth)
  then have "isCompleted (sections (fst (handleSectionComplete sectionId s)) ! i)"
    by (simp add: sec)
  with i have ex: ?ex by blast
  have page: ?page by (simp add: handleSectionComplete_def)
  have toast: ?toast by (simp add: handleSectionComplete_def)
  have idem: ?idem by (simp add: sec)
  have flag1: ?flag1 by (simp add: sec)
  have flag2: ?flag2 unfolding idem by (rule flag1)
  show ?thesis
    by (intro conjI) (fact len nth ex page toast idem flag1 flag2)+
qed

theorem handleSectionComplete_existing_witness:
  "map isCompleted (sections (fst (handleSectionComplete 2 initialPage))) = [False, True, False, False]
   \<and> map isCompleted (sections (fst (handleSectionComplete 2 (fst (handleSectionComplete 2 initialPage)))))
       = [False, True, False, False]
   \<and> toastsOf (snd (handleSectionComplete 2 initialPage)) =
       [\<lparr>toast_title = ''Quiz Completed'',
         toast_description = ''You've completed this section's quiz!'', variant = None\<rparr>]"
proof -
  have h: "(2 :: int) \<in> set (map section_id (sections initialPage))"
    by (simp add: initialPage_def pythonSections_def)
  have once: "map isCompleted (sections (fst (handleSectionComplete 2 initialPage))) =
                [False, True, False, False]"
    by (simp add: handleSectionComplete_def initialPage_def pythonSections_def)
  from handleSectionComplete_existing [OF h]
  have twice: "sections (fst (handleSectionComplete 2 (fst (handleSectionComplete 2 initialPage)))) =
                 sections (fst (handleSectionComplete 2 initialPage))"
    and toast: "snd (handleSectionComplete 2 initialPage) =
         [Toast \<lparr>toast_title = ''Quiz Completed'',
                 toast_description = ''You've completed this section's quiz!'',
                 variant = None\<rparr>]"
    by blast+
  show ?thesis by (simp only: twice toast once toastsOf.simps simp_thms)
qed

text \<open>
  Claim C7. After any run of events from the initial page, with any answers of the data
  service, the sections list is the catalog up to completion flags: four entries with
  the ids 1, 2, 3, 4 in this order and the catalog's titles and descriptions. A flag that
  is set after a run is still set after any continuation of the run.
\<close>

theorem sections_catalog_invariant:
  "catalogOf (sections (run tr initialPage)) = pythonSections
   \<and> length (sections (run tr initialPage)) = 4
   \<and> map section_id (sections (run tr initialPage)) = [1, 2, 3, 4]
   \<and> (\<forall>i<4. isCompleted (sections (run tr initialPage) ! i) \<longrightarrow>
        isCompleted (sections (run (tr @ tr') initialPage) ! i))"
proof -
  let ?s = "run tr initialPage"
  have cat: "catalogOf (sections ?s) = pythonSections"
    by (simp add: catalogOf_run catalogOf_initial)
  have len: "length (sections ?s) = 4"
    by (simp add: length_sections_run initialPage_def pythonSections_def)
  have "map section_id (sections ?s) = map section_id (catalogOf (sections ?s))"
    by (simp only: section_id_catalogOf)
  also have "\<dots> = [1, 2, 3, 4]"
    by (simp add: cat pythonSections_def)
  finally have ids: "map section_id (sections ?s) = [1, 2, 3, 4]" .
  have mono: "\<forall>i<4. isCompleted (sections ?s ! i) \<longrightarrow>
        isCompleted (sections (run (tr @ tr') initialPage) ! i)"
    using len by (simp add: run_append isCompleted_run)
  from cat len ids mono show ?thesis by blast
qed

theorem sections_catalog_invariant_witness:
  "map section_id (sections (run [(\<lambda>_. Rejected ''offline'', SectionQuizClick 2)] initialPage))
     = [1, 2, 3, 4]
   \<and> isCompleted (sections (run [(\<lambda>_. Rejected ''offline'', SectionQuizClick 2)] initialPage) ! 1)
   \<and> isCompleted (sections (run ([(\<lambda>_. Rejected ''offline'', SectionQuizClick 2)] @
         [(\<lambda>_. Rejected ''offline'', SectionQuizClick 2),
          (\<lambda>_. Rejected ''offline'', DifficultyClick ''Hard'')]) initialPage) ! 1)"
proof -
  let ?tr = "[(\<lambda>_. Rejected ''offline'', SectionQuizClick 2)]"
  let ?tr' = "[(\<lambda>_. Rejected ''offline'', SectionQuizClick 2),
               (\<lambda>_. Rejected ''offline'', DifficultyClick ''Hard'')]"
  have done2: "isCompleted (sections (run ?tr initialPage) ! 1)"
    by code_simp
  from sections_catalog_invariant [of ?tr ?tr'] done2 show ?thesis by simp
qed

subsection \<open>The wizard's dialogs\<close>

text \<open>
  Claim C8 at a concrete run from the initial page: the topic \<open>Python\<close> is typed, the
  search is submitted (the type dialog alone is open), the free tier is clicked (the
  difficulty dialog alone is open), and \<open>Beginner\<close> is clicked. The diversion branch
  returns before \<open>setShowDifficultyDialog(false)\<close>, so the difficulty dialog and the
  curriculum modal are both open afterwards. Clicking \<open>Hard\<close> instead closes the
  difficulty dialog.
\<close>

theorem diversion_keeps_difficulty_dialog_open:
  "openDialogs (run [(\<lambda>_. Resolved None None, InputChange ''Python''),
                     (\<lambda>_. Resolved None None, SearchClick)] initialPage) = [''type'']
   \<and> openDialogs (run [(\<lambda>_. Resolved None None, InputChange ''Python''),
                     (\<lambda>_. Resolved None None, SearchClick),
                     (\<lambda>_. Resolved None None, TypeClick True)] initialPage) = [''difficulty'']
   \<and> openDialogs (run [(\<lambda>_. Resolved None None, InputChange ''Python''),
                     (\<lambda>_. Resolved None None, SearchClick),
                     (\<lambda>_. Resolved None None, TypeClick True),
                     (\<lambda>_. Resolved None None, DifficultyClick ''Beginner'')] initialPage)
       = [''difficulty'', ''curriculum'']
   \<and> showDifficultyDialog (run [(\<lambda>_. Resolved None None, InputChange ''Python''),
                     (\<lambda>_. Resolved None None, SearchClick),
                     (\<lambda>_. Resolved None None, TypeClick True),
                     (\<lambda>_. Resolved None None, DifficultyClick ''Beginner'')] initialPage)
   \<and> openDialogs (run [(\<lambda>_. Resolved None None, InputChange ''Python''),
                     (\<lambda>_. Resolved None None, SearchClick),
                     (\<lambda>_. Resolved None None, TypeClick True),
                     (\<lambda>_. Resolved None None, DifficultyClick ''Hard'')] initialPage) = []"
  by code_simp

subsection \<open>The video and quiz relay\<close>

text \<open>
  Claim C9. The quiz's retry callback sets the selected video to the value it already
  has: the page is unchanged, and the video dialog is open afterwards exactly when that
  value is not the empty string. \<open>handleVideoComplete\<close> shows the quiz and clears the
  selected video, so a retry right after it leaves the selected video empty and the
  video dialog closed.
\<close>

theorem courseQuiz_onRetry_identity:
  "selectedVideo (fst (courseQuiz_onRetry s)) = selectedVideo s
   \<and> fst (courseQuiz_onRetry s) = s
   \<and> snd (courseQuiz_onRetry s) = []
   \<and> videoPlayer_isOpen (fst (courseQuiz_onRetry s)) = (selectedVideo s \<noteq> [])
   \<and> showQuiz (fst (handleVideoComplete s))
   \<and> selectedVideo (fst (handleVideoComplete s)) = []
   \<and> selectedVideo (fst (courseQuiz_onRetry (fst (handleVideoComplete s)))) = []
   \<and> \<not> videoPlayer_isOpen (fst (courseQuiz_onRetry (fst (handleVideoComplete s))))"
  by (simp add: courseQuiz_onRetry_def setSelectedVideo_def videoPlayer_isOpen_def
      handleVideoComplete_def)

theorem courseQuiz_onRetry_identity_witness:
  "selectedVideo (fst (courseQuiz_onRetry (initialPage\<lparr>selectedVideo := ''abc123''\<rparr>))) = ''abc123''
   \<and> videoPlayer_isOpen (fst (courseQuiz_onRetry (initialPage\<lparr>selectedVideo := ''abc123''\<rparr>)))
   \<and> selectedVideo (fst (courseQuiz_onRetry (fst (handleVideoComplete
         (initialPage\<lparr>selectedVideo := ''abc123''\<rparr>))))) = []"
  using courseQuiz_onRetry_identity [of "initialPage\<lparr>selectedVideo := ''abc123''\<rparr>"]
  by (simp add: videoPlayer_isOpen_def)

end
